theory Spec2Isabelle
  imports Complex_Main "HOL-Library.Stream"
begin

section \<open>The harmonic visualizer of lab5.py\<close>

text \<open>
  The program keeps a sine wave, a noisy copy of it and a moving average of the noisy copy,
  and recomputes the three whenever a slider moves or the reset button is pressed.
  Everything numeric is a numpy float64. The embedding idealises a finite float as a
  \<open>real\<close> (no rounding, no overflow) and keeps the one non-finite value the program can
  produce, NaN, which \<open>np.sqrt\<close> returns for a negative argument. Infinities are not
  modelled: the program never divides a non-empty array by zero.
\<close>

subsection \<open>Floats with NaN\<close>

datatype npfloat = Fin real | NaN

instantiation npfloat :: comm_monoid_add
begin

definition zero_npfloat :: npfloat where
  "zero_npfloat = Fin 0"

fun plus_npfloat :: "npfloat \<Rightarrow> npfloat \<Rightarrow> npfloat" where
  "plus_npfloat (Fin a) (Fin b) = Fin (a + b)"
| "plus_npfloat _ _ = NaN"

instance
proof
  fix x y z :: npfloat
  show "x + y = y + x"
    by (cases x; cases y; simp)
  show "x + y + z = x + (y + z)"
    by (cases x; cases y; cases z; simp)
  show "0 + x = x"
    unfolding zero_npfloat_def by (cases x; simp)
qed

end

instantiation npfloat :: comm_monoid_mult
begin

definition one_npfloat :: npfloat where
  "one_npfloat = Fin 1"

fun times_npfloat :: "npfloat \<Rightarrow> npfloat \<Rightarrow> npfloat" where
  "times_npfloat (Fin a) (Fin b) = Fin (a * b)"
| "times_npfloat _ _ = NaN"

instance
proof
  fix x y z :: npfloat
  show "x * y = y * x"
    by (cases x; cases y; simp)
  show "x * y * z = x * (y * z)"
    by (cases x; cases y; cases z; simp)
  show "1 * x = x"
    unfolding one_npfloat_def by (cases x; simp)
qed

end

text \<open>
  Division of a float by a float. A zero divisor gives an infinity or NaN in IEEE
  arithmetic; the model has NaN only, and the program never reaches that branch.
\<close>

fun fdiv :: "npfloat \<Rightarrow> npfloat \<Rightarrow> npfloat" where
  "fdiv (Fin a) (Fin b) = (if b = 0 then NaN else Fin (a / b))"
| "fdiv _ _ = NaN"

subsection \<open>Errors\<close>

text \<open>The only exception the modelled numpy calls raise is \<open>ValueError\<close>, with its message.\<close>

datatype error = ValueError string

definition bind_err :: "error + 'a \<Rightarrow> ('a \<Rightarrow> error + 'b) \<Rightarrow> error + 'b" where
  "bind_err m f = (case m of Inl e \<Rightarrow> Inl e | Inr x \<Rightarrow> f x)"

subsection \<open>The numpy functions the program calls\<close>

text \<open>
  \<open>np.linspace(start, stop, num)\<close> with the default \<open>endpoint=True\<close>: the step is
  \<open>(stop - start) / (num - 1)\<close>, sample \<open>i\<close> is \<open>i * step + start\<close>, and for
  \<open>num > 1\<close> the last sample is overwritten with \<open>stop\<close>.
\<close>

definition np_linspace :: "real \<Rightarrow> real \<Rightarrow> nat \<Rightarrow> real list" where
  "np_linspace start stop num =
     (let step = (stop - start) / real (num - 1);
          y = map (\<lambda>i. real i * step + start) [0..<num]
      in if 1 < num then y[num - 1 := stop] else y)"

text \<open>\<open>np.sqrt\<close> of a float: NaN (and a warning, no exception) below zero.\<close>

definition np_sqrt :: "real \<Rightarrow> npfloat" where
  "np_sqrt x = (if x < 0 then NaN else Fin (sqrt x))"

text \<open>
  \<open>np.random.normal(loc, scale, size)\<close>. The process-wide generator is the stream of
  standard normal variates it will hand out next; a call for \<open>n\<close> samples takes \<open>n\<close> of
  them, returns \<open>loc + scale * z\<close> for each and leaves the rest. The scale is checked
  first (numpy 1.17 and later): a scale below zero that is not NaN raises \<open>ValueError\<close>;
  a NaN scale passes the check and makes every sample NaN.
\<close>

definition np_random_normal ::
  "real \<Rightarrow> npfloat \<Rightarrow> nat \<Rightarrow> real stream \<Rightarrow> error + (npfloat list \<times> real stream)" where
  "np_random_normal loc scale n g =
     (case scale of
        Fin s \<Rightarrow>
          if s < 0 then Inl (ValueError ''scale < 0'')
          else Inr (map (\<lambda>z. Fin loc + scale * Fin z) (stake n g), sdrop n g)
      | NaN \<Rightarrow> Inr (map (\<lambda>z. Fin loc + scale * Fin z) (stake n g), sdrop n g))"

text \<open>\<open>np.ones(n)\<close>: \<open>n\<close> ones; a negative \<open>n\<close> raises \<open>ValueError\<close>.\<close>

definition np_ones :: "int \<Rightarrow> error + npfloat list" where
  "np_ones n =
     (if n < 0 then Inl (ValueError ''negative dimensions are not allowed'')
      else Inr (replicate (nat n) (Fin 1)))"

text \<open>
  \<open>np.convolve(a, v, mode='same')\<close>. The longer argument is taken as the signal, an empty
  argument raises \<open>ValueError\<close>, and the result has the length of the signal: entry \<open>i\<close>
  is entry \<open>i + (M - 1) div 2\<close> of the full convolution, that is the sum of
  \<open>a[j] * v[i + (M - 1) div 2 - j]\<close> over the \<open>j\<close> for which both indices exist
  (\<open>M\<close> the length of the kernel).
\<close>

definition conv_same_at :: "npfloat list \<Rightarrow> npfloat list \<Rightarrow> nat \<Rightarrow> npfloat" where
  "conv_same_at a v i =
     (let c = i + (length v - 1) div 2
      in sum_list (map (\<lambda>j. a ! j * v ! (c - j)) [c + 1 - length v ..< min (length a) (c + 1)]))"

definition np_convolve_same :: "npfloat list \<Rightarrow> npfloat list \<Rightarrow> error + npfloat list" where
  "np_convolve_same a v =
     (let (a', v') = (if length a < length v then (v, a) else (a, v))
      in if length a' = 0 then Inl (ValueError ''a cannot be empty'')
         else if length v' = 0 then Inl (ValueError ''v cannot be empty'')
         else Inr (map (conv_same_at a' v') [0..<length a']))"

subsection \<open>The plot: sliders and lines\<close>

text \<open>
  The display collaborator, as far as the program reads or writes it: a slider has a
  range, an initial value and a current value; a plotted line has its y data and a
  visibility flag.
\<close>

record slider =
  valmin :: real
  valmax :: real
  valinit :: real
  val :: real

record line =
  ydata :: "npfloat list"
  visible :: bool

datatype slider_key = Amplitude | Frequency | Noise_mean | Covariance

subsection \<open>The state of a HarmonicVisualizer\<close>

text \<open>
  The attributes of \<open>self\<close>, and \<open>rng\<close>, the state of numpy's global generator, which
  \<open>_generate_noise\<close> advances.
\<close>

record visualizer =
  amplitude :: real
  frequency :: real
  phase :: real
  noise_mean :: real
  noise_covariance :: real
  filter_window :: int
  t :: "real list"
  pure_signal :: "npfloat list"
  noise :: "npfloat list"
  noisy_signal :: "npfloat list"
  filtered_signal :: "npfloat list"
  sliders :: "slider_key \<Rightarrow> slider"
  pure_line :: line
  noisy_line :: line
  filtered_line :: line
  rng :: "real stream"

subsection \<open>The signal pipeline\<close>

definition calculate_harmonic :: "visualizer \<Rightarrow> npfloat list" where
  "calculate_harmonic self =
     map (\<lambda>x. Fin (amplitude self * sin (2 * pi * frequency self * x + phase self))) (t self)"

definition generate_noise :: "visualizer \<Rightarrow> error + (npfloat list \<times> real stream)" where
  "generate_noise self =
     np_random_normal (noise_mean self) (np_sqrt (noise_covariance self))
       (length (t self)) (rng self)"

text \<open>
  \<open>window = np.ones(w) / w\<close>, then the convolution of the noisy signal with it. For
  \<open>w = 0\<close> the array of ones is empty and nothing is divided.
\<close>

definition apply_filter :: "visualizer \<Rightarrow> error + npfloat list" where
  "apply_filter self =
     bind_err (np_ones (filter_window self)) (\<lambda>ones.
       np_convolve_same (noisy_signal self)
         (map (\<lambda>x. fdiv x (Fin (real_of_int (filter_window self)))) ones))"

text \<open>
  The four assignments that \<open>__init__\<close> and \<open>_update\<close> share: pure signal, noise,
  their element-wise sum, and the filter applied to the sum.
\<close>

definition recompute :: "visualizer \<Rightarrow> error + visualizer" where
  "recompute self =
     (let s1 = self\<lparr>pure_signal := calculate_harmonic self\<rparr>
      in bind_err (generate_noise s1) (\<lambda>(nz, g).
           let s2 = s1\<lparr>noise := nz, rng := g\<rparr>;
               s3 = s2\<lparr>noisy_signal := map2 (+) (pure_signal s2) (noise s2)\<rparr>
           in bind_err (apply_filter s3) (\<lambda>f. Inr (s3\<lparr>filtered_signal := f\<rparr>))))"

subsection \<open>Event handlers\<close>

text \<open>\<open>_update\<close>: read the sliders, recompute, hand the new samples to the lines.\<close>

definition update :: "visualizer \<Rightarrow> error + visualizer" where
  "update self =
     (let s1 = self\<lparr>amplitude := val (sliders self Amplitude),
                     frequency := val (sliders self Frequency),
                     noise_mean := val (sliders self Noise_mean),
                     noise_covariance := val (sliders self Covariance)\<rparr>
      in bind_err (recompute s1) (\<lambda>s2.
           Inr (s2\<lparr>pure_line := (pure_line s2)\<lparr>ydata := pure_signal s2\<rparr>,
                   noisy_line := (noisy_line s2)\<lparr>ydata := noisy_signal s2\<rparr>,
                   filtered_line := (filtered_line s2)\<lparr>ydata := filtered_signal s2\<rparr>\<rparr>)))"

text \<open>\<open>_update_visibility\<close>: the two checkbox labels toggle one line each.\<close>

definition update_visibility :: "string \<Rightarrow> visualizer \<Rightarrow> visualizer" where
  "update_visibility label self =
     (if label = ''Show Noise''
      then self\<lparr>noisy_line := (noisy_line self)\<lparr>visible := \<not> visible (noisy_line self)\<rparr>\<rparr>
      else if label = ''Show Filtered''
      then self\<lparr>filtered_line :=
                  (filtered_line self)\<lparr>visible := \<not> visible (filtered_line self)\<rparr>\<rparr>
      else self)"

text \<open>
  The matplotlib sliders call \<open>_update\<close>, which the program registers with
  \<open>on_changed\<close>, whenever their value changes. \<open>Slider.set_val\<close> stores the value and
  calls \<open>_update\<close>; \<open>Slider.reset\<close> does so with the initial value, unless the slider is
  already there; dragging the slider does so with the position clipped to the range,
  unless the value stays the same.
\<close>

definition slider_set_val :: "slider_key \<Rightarrow> real \<Rightarrow> visualizer \<Rightarrow> error + visualizer" where
  "slider_set_val k x self =
     update (self\<lparr>sliders := (sliders self)(k := (sliders self k)\<lparr>val := x\<rparr>)\<rparr>)"

definition slider_reset :: "slider_key \<Rightarrow> visualizer \<Rightarrow> error + visualizer" where
  "slider_reset k self =
     (if val (sliders self k) \<noteq> valinit (sliders self k)
      then slider_set_val k (valinit (sliders self k)) self
      else Inr self)"

definition value_in_bounds :: "slider \<Rightarrow> real \<Rightarrow> real" where
  "value_in_bounds s x =
     (if x \<le> valmin s then valmin s else if valmax s \<le> x then valmax s else x)"

definition slider_drag :: "slider_key \<Rightarrow> real \<Rightarrow> visualizer \<Rightarrow> error + visualizer" where
  "slider_drag k x self =
     (let x' = value_in_bounds (sliders self k) x
      in if x' = val (sliders self k) then Inr self else slider_set_val k x' self)"

text \<open>\<open>_reset\<close>: reset the sliders in the order of the dictionary, then \<open>_update\<close>.\<close>

fun reset_sliders :: "slider_key list \<Rightarrow> visualizer \<Rightarrow> error + visualizer" where
  "reset_sliders [] self = Inr self"
| "reset_sliders (k # ks) self = bind_err (slider_reset k self) (reset_sliders ks)"

definition reset :: "visualizer \<Rightarrow> error + visualizer" where
  "reset self =
     bind_err (reset_sliders [Amplitude, Frequency, Noise_mean, Covariance] self) update"

subsection \<open>Construction\<close>

text \<open>
  \<open>__init__\<close> over a generator state: the initial parameters, the time axis, the first
  computation of the signals, then \<open>_setup_plot\<close>, which draws the three lines (all
  visible) and creates each slider at the parameter it controls. \<open>blank\<close> is the object
  after the first seven assignments; the attributes \<open>__init__\<close> has not assigned yet hold
  placeholders (empty signals and lines, sliders at zero) that are overwritten before
  they are read.
\<close>

definition blank :: "real stream \<Rightarrow> visualizer" where
  "blank g =
     \<lparr>amplitude = 1, frequency = 1, phase = 0, noise_mean = 0, noise_covariance = 2 / 10,
      filter_window = 10, t = np_linspace 0 10 1000,
      pure_signal = [], noise = [], noisy_signal = [], filtered_signal = [],
      sliders = (\<lambda>k. \<lparr>valmin = 0, valmax = 0, valinit = 0, val = 0\<rparr>),
      pure_line = \<lparr>ydata = [], visible = True\<rparr>,
      noisy_line = \<lparr>ydata = [], visible = True\<rparr>,
      filtered_line = \<lparr>ydata = [], visible = True\<rparr>,
      rng = g\<rparr>"

definition add_sliders :: "visualizer \<Rightarrow> visualizer" where
  "add_sliders self =
     self\<lparr>sliders := (\<lambda>k. case k of
        Amplitude \<Rightarrow> \<lparr>valmin = 1 / 10, valmax = 5, valinit = amplitude self, val = amplitude self\<rparr>
      | Frequency \<Rightarrow> \<lparr>valmin = 1 / 10, valmax = 3, valinit = frequency self, val = frequency self\<rparr>
      | Noise_mean \<Rightarrow> \<lparr>valmin = - 1, valmax = 1, valinit = noise_mean self, val = noise_mean self\<rparr>
      | Covariance \<Rightarrow> \<lparr>valmin = 0, valmax = 1, valinit = noise_covariance self,
                       val = noise_covariance self\<rparr>)\<rparr>"

definition setup_plot :: "visualizer \<Rightarrow> visualizer" where
  "setup_plot self =
     add_sliders (self\<lparr>pure_line := \<lparr>ydata = pure_signal self, visible = True\<rparr>,
                       noisy_line := \<lparr>ydata = noisy_signal self, visible = True\<rparr>,
                       filtered_line := \<lparr>ydata = filtered_signal self, visible = True\<rparr>\<rparr>)"

definition init :: "real stream \<Rightarrow> error + visualizer" where
  "init g = bind_err (recompute (blank g)) (\<lambda>s. Inr (setup_plot s))"

subsection \<open>Events\<close>

text \<open>What the user can do to the window, and the handler each action runs.\<close>

datatype event = Slider_dragged slider_key real | Checkbox_clicked string | Reset_clicked

fun handle :: "event \<Rightarrow> visualizer \<Rightarrow> error + visualizer" where
  "handle (Slider_dragged k x) self = slider_drag k x self"
| "handle (Checkbox_clicked label) self = Inr (update_visibility label self)"
| "handle Reset_clicked self = reset self"

fun run :: "event list \<Rightarrow> visualizer \<Rightarrow> error + visualizer" where
  "run [] self = Inr self"
| "run (e # es) self = bind_err (handle e self) (run es)"

definition run_program :: "real stream \<Rightarrow> event list \<Rightarrow> error + visualizer" where
  "run_program g es = bind_err (init g) (run es)"

subsection \<open>The moving average as the specification words it\<close>

text \<open>
  The signal padded with zeros on both sides, and the mean of the window of width \<open>w\<close>
  around position \<open>i\<close>: it reaches \<open>w div 2\<close> samples back and \<open>(w - 1) div 2\<close>
  samples ahead, which is centred for an odd \<open>w\<close> and half a sample early for an even one.
\<close>

definition zero_padded :: "npfloat list \<Rightarrow> int \<Rightarrow> npfloat" where
  "zero_padded a j = (if 0 \<le> j \<and> j < int (length a) then a ! nat j else 0)"

definition window_mean :: "npfloat list \<Rightarrow> nat \<Rightarrow> nat \<Rightarrow> npfloat" where
  "window_mean a w i =
     Fin (1 / real w) *
     sum_list (map (zero_padded a) [int i - int (w div 2) .. int i + int ((w - 1) div 2)])"

subsection \<open>States reached from startup\<close>

text \<open>
  What \<open>__init__\<close> establishes and no handler changes: the phase, the filter window, the
  time axis, the range and the initial value of every slider, and the length of the
  three signals.
\<close>

definition started :: "visualizer \<Rightarrow> bool" where
  "started self \<longleftrightarrow>
     phase self = 0 \<and> filter_window self = 10 \<and> t self = np_linspace 0 10 1000 \<and>
     valinit (sliders self Amplitude) = 1 \<and> valinit (sliders self Frequency) = 1 \<and>
     valinit (sliders self Noise_mean) = 0 \<and> valinit (sliders self Covariance) = 2 / 10 \<and>
     valmin (sliders self Noise_mean) = - 1 \<and> valmax (sliders self Noise_mean) = 1 \<and>
     valmin (sliders self Covariance) = 0 \<and> valmax (sliders self Covariance) = 1 \<and>
     length (pure_signal self) = 1000 \<and> length (noisy_signal self) = 1000 \<and>
     length (filtered_signal self) = 1000"

subsection \<open>Example inputs\<close>

text \<open>
  A generator that only ever draws zero; the object before its first computation with
  a variance of -1 and of 0; two slider movements; and an object holding three noisy
  samples and a window of two.
\<close>

definition quiet :: "real stream" where
  "quiet = sconst 0"

definition negative_variance :: visualizer where
  "negative_variance = (blank quiet)\<lparr>noise_covariance := - 1\<rparr>"

definition zero_variance :: visualizer where
  "zero_variance = (blank quiet)\<lparr>noise_covariance := 0\<rparr>"

definition offset_noise :: "event list" where
  "offset_noise = [Slider_dragged Covariance 0, Slider_dragged Noise_mean 1]"

definition three_samples :: visualizer where
  "three_samples =
     (blank quiet)\<lparr>filter_window := 2, noisy_signal := [Fin 1, Fin 2, Fin 3]\<rparr>"

section \<open>Properties\<close>

subsection \<open>Error propagation and \<open>np.linspace\<close>\<close>


lemma bind_err_simps [simp]:
  "bind_err (Inl e) f = Inl e"
  "bind_err (Inr x) f = f x"
  by (simp_all add: bind_err_def)

lemma bind_err_Inr_iff:
  "bind_err m f = Inr y \<longleftrightarrow> (\<exists>x. m = Inr x \<and> f x = Inr y)"
  by (cases m) simp_all

lemma length_np_linspace [simp]: "length (np_linspace a b n) = n"
  by (simp add: np_linspace_def Let_def)

lemma np_linspace_nth:
  assumes "i < n"
  shows "np_linspace a b n ! i = a + real i * ((b - a) / real (n - 1))"
proof (cases "i = n - 1 \<and> 1 < n")
  case True
  then have "real (n - 1) \<noteq> 0" by simp
  then have "a + real (n - 1) * ((b - a) / real (n - 1)) = b" by simp
  with True assms show ?thesis
    by (simp add: np_linspace_def Let_def)
next
  case False
  with assms show ?thesis
    by (auto simp add: np_linspace_def Let_def nth_list_update)
qed

lemma np_linspace_step:
  assumes "Suc i < n"
  shows "np_linspace a b n ! Suc i - np_linspace a b n ! i = (b - a) / real (n - 1)"
proof -
  define d where "d = (b - a) / real (n - 1)"
  have "np_linspace a b n ! Suc i = a + real (Suc i) * d"
    using assms unfolding d_def by (rule np_linspace_nth)
  moreover have "np_linspace a b n ! i = a + real i * d"
    using assms unfolding d_def by (intro np_linspace_nth) simp
  ultimately show ?thesis
    unfolding d_def [symmetric] by (simp add: algebra_simps)
qed

lemma np_linspace_strict:
  assumes "a < b"
  shows "sorted_wrt (<) (np_linspace a b n)"
proof -
  define d where "d = (b - a) / real (n - 1)"
  have "np_linspace a b n ! i < np_linspace a b n ! j" if "i < j" "j < n" for i j
  proof -
    from that have "1 < n" by simp
    then have "0 < d" using assms unfolding d_def by simp
    then have "real i * d < real j * d"
      using that by simp
    moreover have "np_linspace a b n ! i = a + real i * d"
      unfolding d_def using that by (intro np_linspace_nth) simp
    moreover have "np_linspace a b n ! j = a + real j * d"
      unfolding d_def using that by (intro np_linspace_nth) simp
    ultimately show ?thesis by simp
  qed
  then show ?thesis by (simp add: sorted_wrt_iff_nth_less)
qed

lemma np_linspace_0_10_1000:
  "np_linspace 0 10 1000 ! 0 = 0"
  "np_linspace 0 10 1000 ! 999 = 10"
  "i < 999 \<Longrightarrow> np_linspace 0 10 1000 ! Suc i - np_linspace 0 10 1000 ! i = 10 / 999"
  "sorted_wrt (<) (np_linspace 0 10 1000)"
proof -
  show "np_linspace 0 10 1000 ! 0 = 0"
    by (simp add: np_linspace_nth)
  show "np_linspace 0 10 1000 ! 999 = 10"
    by (simp add: np_linspace_nth)
  show "np_linspace 0 10 1000 ! Suc i - np_linspace 0 10 1000 ! i = 10 / 999" if "i < 999"
    using that by (subst np_linspace_step) simp_all
  show "sorted_wrt (<) (np_linspace 0 10 1000)"
    by (rule np_linspace_strict) simp
qed

subsection \<open>Float arithmetic\<close>

lemma Fin_distrib: "Fin r * (a + b) = Fin r * a + Fin r * b"
  by (cases a; cases b) (simp_all add: algebra_simps)

lemma sum_list_Fin_scale:
  "sum_list (map (\<lambda>j. f j * Fin r) xs) = Fin r * sum_list (map f xs)"
proof (induction xs)
  case Nil
  show ?case by (simp add: zero_npfloat_def)
next
  case (Cons x xs)
  have "f x * Fin r = Fin r * f x" by (simp add: mult.commute)
  with Cons show ?case by (simp add: Fin_distrib)
qed

lemma mult_Fin_1 [simp]: "a * Fin 1 = a"
  by (cases a) simp_all

subsection \<open>The convolution\<close>

lemma conv_same_at_uniform:
  assumes "1 \<le> m"
  shows "conv_same_at a (replicate m (Fin r)) i =
         Fin r * sum_list (map ((!) a) [i + (m - 1) div 2 + 1 - m ..< min (length a) (i + (m - 1) div 2 + 1)])"
proof -
  define c where "c = i + (m - 1) div 2"
  define js where "js = [c + 1 - m ..< min (length a) (c + 1)]"
  have eq: "map (\<lambda>j. a ! j * replicate m (Fin r) ! (c - j)) js = map (\<lambda>j. a ! j * Fin r) js"
  proof (rule map_cong [OF refl])
    fix j assume "j \<in> set js"
    then have "c - j < m" using assms by (auto simp add: js_def)
    then show "a ! j * replicate m (Fin r) ! (c - j) = a ! j * Fin r" by simp
  qed
  have "conv_same_at a (replicate m (Fin r)) i =
        sum_list (map (\<lambda>j. a ! j * replicate m (Fin r) ! (c - j)) js)"
    by (simp add: conv_same_at_def Let_def c_def js_def)
  also have "\<dots> = sum_list (map (\<lambda>j. a ! j * Fin r) js)"
    by (simp only: eq)
  also have "\<dots> = Fin r * sum_list (map ((!) a) js)"
    by (rule sum_list_Fin_scale)
  finally show ?thesis
    by (simp add: c_def js_def)
qed

lemma np_convolve_same_longer:
  assumes "v \<noteq> []" "length v \<le> length a"
  shows "np_convolve_same a v = Inr (map (conv_same_at a v) [0..<length a])"
  using assms by (auto simp add: np_convolve_same_def)

lemma np_convolve_same_shorter:
  assumes "a \<noteq> []" "length a < length v"
  shows "np_convolve_same a v = Inr (map (conv_same_at v a) [0..<length v])"
  using assms by (auto simp add: np_convolve_same_def)

lemma np_convolve_same_empty:
  assumes "a = [] \<or> v = []"
  shows "\<exists>m. np_convolve_same a v = Inl (ValueError m)"
  using assms by (auto simp add: np_convolve_same_def)

lemma kernel_eq:
  assumes "1 \<le> w"
  shows "map (\<lambda>x. fdiv x (Fin (real_of_int w))) (replicate (nat w) (Fin 1)) =
         replicate (nat w) (Fin (1 / real_of_int w))"
  using assms by simp

lemma apply_filter_eq:
  assumes "1 \<le> filter_window self"
  shows "apply_filter self =
         np_convolve_same (noisy_signal self)
           (replicate (nat (filter_window self)) (Fin (1 / real_of_int (filter_window self))))"
  using assms by (simp add: apply_filter_def np_ones_def)

lemma apply_filter_ok:
  assumes "1 \<le> filter_window self" "noisy_signal self \<noteq> []"
  shows "\<exists>f. apply_filter self = Inr f \<and>
             length f = max (length (noisy_signal self)) (nat (filter_window self))"
proof (cases "length (noisy_signal self) < nat (filter_window self)")
  case True
  with assms show ?thesis
    by (simp add: apply_filter_eq np_convolve_same_shorter)
next
  case False
  with assms show ?thesis
    by (simp add: apply_filter_eq np_convolve_same_longer)
qed

lemma apply_filter_fails:
  assumes "filter_window self < 1 \<or> noisy_signal self = []"
  shows "\<exists>m. apply_filter self = Inl (ValueError m)"
proof (cases "filter_window self < 0")
  case True
  then show ?thesis by (simp add: apply_filter_def np_ones_def)
next
  case False
  show ?thesis
  proof (cases "filter_window self = 0")
    case True
    then show ?thesis
      using np_convolve_same_empty [of "noisy_signal self" "[]"]
      by (simp add: apply_filter_def np_ones_def)
  next
    case nz: False
    with False assms have e: "noisy_signal self = []" and w: "1 \<le> filter_window self" by auto
    show ?thesis
      using np_convolve_same_empty [of "[]"] by (simp add: apply_filter_eq [OF w] e)
  qed
qed

subsection \<open>The pipeline\<close>

lemma np_random_normal_sqrt:
  "np_random_normal loc (np_sqrt x) n g =
   Inr (map (\<lambda>z. Fin loc + np_sqrt x * Fin z) (stake n g), sdrop n g)"
  by (simp add: np_random_normal_def np_sqrt_def)

lemma generate_noise_eq:
  "generate_noise self =
   Inr (map (\<lambda>z. Fin (noise_mean self) + np_sqrt (noise_covariance self) * Fin z)
          (stake (length (t self)) (rng self)),
        sdrop (length (t self)) (rng self))"
  by (simp add: generate_noise_def np_random_normal_sqrt)

lemma recompute_Inr:
  assumes "recompute self = Inr s'"
  shows "pure_signal s' = calculate_harmonic self"
    and "noise s' = map (\<lambda>z. Fin (noise_mean self) + np_sqrt (noise_covariance self) * Fin z)
                      (stake (length (t self)) (rng self))"
    and "rng s' = sdrop (length (t self)) (rng self)"
    and "noisy_signal s' = map2 (+) (pure_signal s') (noise s')"
    and "apply_filter s' = Inr (filtered_signal s')"
    and "amplitude s' = amplitude self" and "frequency s' = frequency self"
    and "phase s' = phase self" and "noise_mean s' = noise_mean self"
    and "noise_covariance s' = noise_covariance self"
    and "filter_window s' = filter_window self" and "t s' = t self"
    and "sliders s' = sliders self" and "pure_line s' = pure_line self"
    and "noisy_line s' = noisy_line self" and "filtered_line s' = filtered_line self"
  using assms
  by (auto simp add: recompute_def generate_noise_eq Let_def bind_err_Inr_iff apply_filter_def)

lemma recompute_ok:
  assumes "1 \<le> filter_window self" "t self \<noteq> []"
  shows "\<exists>s'. recompute self = Inr s'"
proof -
  define s3 where "s3 = self\<lparr>pure_signal := calculate_harmonic self,
      noise := map (\<lambda>z. Fin (noise_mean self) + np_sqrt (noise_covariance self) * Fin z)
                 (stake (length (t self)) (rng self)),
      rng := sdrop (length (t self)) (rng self),
      noisy_signal := map2 (+) (calculate_harmonic self)
        (map (\<lambda>z. Fin (noise_mean self) + np_sqrt (noise_covariance self) * Fin z)
                 (stake (length (t self)) (rng self)))\<rparr>"
  have "1 \<le> filter_window s3" "noisy_signal s3 \<noteq> []"
    using assms by (simp_all add: s3_def calculate_harmonic_def)
  then obtain f where "apply_filter s3 = Inr f"
    using apply_filter_ok by blast
  then show ?thesis
    by (simp add: recompute_def generate_noise_eq Let_def s3_def)
qed

lemma recompute_fails:
  assumes "filter_window self < 1 \<or> t self = []"
  shows "\<exists>m. recompute self = Inl (ValueError m)"
proof -
  define s3 where "s3 = self\<lparr>pure_signal := calculate_harmonic self,
      noise := map (\<lambda>z. Fin (noise_mean self) + np_sqrt (noise_covariance self) * Fin z)
                 (stake (length (t self)) (rng self)),
      rng := sdrop (length (t self)) (rng self),
      noisy_signal := map2 (+) (calculate_harmonic self)
        (map (\<lambda>z. Fin (noise_mean self) + np_sqrt (noise_covariance self) * Fin z)
                 (stake (length (t self)) (rng self)))\<rparr>"
  have "filter_window s3 < 1 \<or> noisy_signal s3 = []"
    using assms by (auto simp add: s3_def calculate_harmonic_def)
  then obtain m where "apply_filter s3 = Inl (ValueError m)"
    using apply_filter_fails by blast
  then show ?thesis
    by (simp add: recompute_def generate_noise_eq Let_def s3_def)
qed

lemma update_Inr:
  assumes "update self = Inr s'"
  shows "amplitude s' = val (sliders self Amplitude)"
    and "frequency s' = val (sliders self Frequency)"
    and "noise_mean s' = val (sliders self Noise_mean)"
    and "noise_covariance s' = val (sliders self Covariance)"
    and "phase s' = phase self" and "filter_window s' = filter_window self"
    and "t s' = t self" and "sliders s' = sliders self"
    and "pure_signal s' =
           map (\<lambda>x. Fin (amplitude s' * sin (2 * pi * frequency s' * x + phase s'))) (t self)"
    and "noise s' = map (\<lambda>z. Fin (noise_mean s') + np_sqrt (noise_covariance s') * Fin z)
                      (stake (length (t self)) (rng self))"
    and "rng s' = sdrop (length (t self)) (rng self)"
    and "noisy_signal s' = map2 (+) (pure_signal s') (noise s')"
    and "apply_filter s' = Inr (filtered_signal s')"
    and "ydata (pure_line s') = pure_signal s'"
    and "ydata (noisy_line s') = noisy_signal s'"
    and "ydata (filtered_line s') = filtered_signal s'"
    and "visible (pure_line s') = visible (pure_line self)"
    and "visible (noisy_line s') = visible (noisy_line self)"
    and "visible (filtered_line s') = visible (filtered_line self)"
proof -
  define s1 where "s1 = self\<lparr>amplitude := val (sliders self Amplitude),
                     frequency := val (sliders self Frequency),
                     noise_mean := val (sliders self Noise_mean),
                     noise_covariance := val (sliders self Covariance)\<rparr>"
  from assms obtain s2 where r: "recompute s1 = Inr s2"
    and s': "s' = s2\<lparr>pure_line := (pure_line s2)\<lparr>ydata := pure_signal s2\<rparr>,
                   noisy_line := (noisy_line s2)\<lparr>ydata := noisy_signal s2\<rparr>,
                   filtered_line := (filtered_line s2)\<lparr>ydata := filtered_signal s2\<rparr>\<rparr>"
    by (auto simp add: update_def Let_def s1_def bind_err_Inr_iff)
  note f = recompute_Inr [OF r]
  show "amplitude s' = val (sliders self Amplitude)"
    and "frequency s' = val (sliders self Frequency)"
    and "noise_mean s' = val (sliders self Noise_mean)"
    and "noise_covariance s' = val (sliders self Covariance)"
    and "phase s' = phase self" and "filter_window s' = filter_window self"
    and "t s' = t self" and "sliders s' = sliders self"
    by (simp_all add: s' f s1_def)
  show "pure_signal s' =
           map (\<lambda>x. Fin (amplitude s' * sin (2 * pi * frequency s' * x + phase s'))) (t self)"
    by (simp add: s' f calculate_harmonic_def s1_def)
  show "noise s' = map (\<lambda>z. Fin (noise_mean s') + np_sqrt (noise_covariance s') * Fin z)
                      (stake (length (t self)) (rng self))"
    by (simp add: s' f s1_def)
  show "rng s' = sdrop (length (t self)) (rng self)"
    by (simp add: s' f s1_def)
  show "noisy_signal s' = map2 (+) (pure_signal s') (noise s')"
    using f(4) by (simp add: s')
  show "apply_filter s' = Inr (filtered_signal s')"
    using f(5) by (simp add: s' apply_filter_def)
  show "ydata (pure_line s') = pure_signal s'"
    and "ydata (noisy_line s') = noisy_signal s'"
    and "ydata (filtered_line s') = filtered_signal s'"
    and "visible (pure_line s') = visible (pure_line self)"
    and "visible (noisy_line s') = visible (noisy_line self)"
    and "visible (filtered_line s') = visible (filtered_line self)"
    by (simp_all add: s' f s1_def)
qed

lemma update_ok:
  assumes "1 \<le> filter_window self" "t self \<noteq> []"
  shows "\<exists>s'. update self = Inr s'"
proof -
  define s1 where "s1 = self\<lparr>amplitude := val (sliders self Amplitude),
                     frequency := val (sliders self Frequency),
                     noise_mean := val (sliders self Noise_mean),
                     noise_covariance := val (sliders self Covariance)\<rparr>"
  have "1 \<le> filter_window s1" "t s1 \<noteq> []"
    using assms by (simp_all add: s1_def)
  then obtain s2 where "recompute s1 = Inr s2"
    using recompute_ok by blast
  then show ?thesis
    by (simp add: update_def Let_def s1_def)
qed

lemma update_fails:
  assumes "filter_window self < 1 \<or> t self = []"
  shows "\<exists>m. update self = Inl (ValueError m)"
proof -
  define s1 where "s1 = self\<lparr>amplitude := val (sliders self Amplitude),
                     frequency := val (sliders self Frequency),
                     noise_mean := val (sliders self Noise_mean),
                     noise_covariance := val (sliders self Covariance)\<rparr>"
  have "filter_window s1 < 1 \<or> t s1 = []"
    using assms by (simp_all add: s1_def)
  then obtain m where "recompute s1 = Inl (ValueError m)"
    using recompute_fails by blast
  then show ?thesis
    by (simp add: update_def Let_def s1_def)
qed


subsection \<open>The filter\<close>

lemma conv_same_at_one:
  assumes "i < length a"
  shows "conv_same_at a [Fin 1] i = a ! i"
proof -
  have "[i..<min (length a) (Suc i)] = [i]"
    using assms by (simp add: min_def upt_rec)
  then show ?thesis
    by (simp add: conv_same_at_def)
qed

text \<open>
  Claim C4. With a window of one sample the filter returns its input unchanged, whatever
  the samples are (NaN included). The input is a sample sequence, so it is not empty.
\<close>

theorem window_one_identity:
  assumes "filter_window self = 1" and "noisy_signal self \<noteq> []"
  shows "apply_filter self = Inr (noisy_signal self)"
proof -
  have "map (conv_same_at (noisy_signal self) [Fin 1]) [0..<length (noisy_signal self)] =
        noisy_signal self"
    by (rule nth_equalityI) (simp_all add: conv_same_at_one)
  moreover have "apply_filter self = np_convolve_same (noisy_signal self) [Fin 1]"
    using assms(1) by (simp add: apply_filter_def np_ones_def)
  moreover have "length [Fin 1] \<le> length (noisy_signal self)"
    using assms(2) by (cases "noisy_signal self") simp_all
  ultimately show ?thesis
    by (simp add: np_convolve_same_longer)
qed

text \<open>Claim C4 on three samples.\<close>

theorem window_one_identity_witness:
  "filter_window (three_samples\<lparr>filter_window := 1\<rparr>) = 1 \<and>
   noisy_signal (three_samples\<lparr>filter_window := 1\<rparr>) \<noteq> [] \<and>
   apply_filter (three_samples\<lparr>filter_window := 1\<rparr>) = Inr [Fin 1, Fin 2, Fin 3]"
  using window_one_identity [of "three_samples\<lparr>filter_window := 1\<rparr>"]
  by (simp add: three_samples_def)

text \<open>
  Claim C5. With a window below one the filter fails: \<open>np.ones\<close> raises \<open>ValueError\<close> for a
  negative window and \<open>np.convolve\<close> raises it for the empty kernel of window zero. The
  failure passes through the recomputation and through \<open>_update\<close>. \<open>ValueError\<close> is what
  the specification calls InvalidParameter.
\<close>

theorem window_below_one_fails:
  assumes "filter_window self < 1"
  shows "(\<exists>m. apply_filter self = Inl (ValueError m)) \<and>
         (\<exists>m. recompute self = Inl (ValueError m)) \<and>
         (\<exists>m. update self = Inl (ValueError m))"
  using assms apply_filter_fails [of self] recompute_fails [of self] update_fails [of self]
  by blast

text \<open>Claim C5 for a window of zero on three samples.\<close>

theorem window_below_one_fails_witness:
  "filter_window (three_samples\<lparr>filter_window := 0\<rparr>) < 1 \<and>
   (\<exists>m. apply_filter (three_samples\<lparr>filter_window := 0\<rparr>) = Inl (ValueError m)) \<and>
   apply_filter (three_samples\<lparr>filter_window := 0\<rparr>) = Inl (ValueError ''v cannot be empty'')"
proof -
  have h: "filter_window (three_samples\<lparr>filter_window := 0\<rparr>) < 1"
    by (simp add: three_samples_def)
  have "apply_filter (three_samples\<lparr>filter_window := 0\<rparr>) = Inl (ValueError ''v cannot be empty'')"
    by (simp add: three_samples_def apply_filter_def np_ones_def np_convolve_same_def)
  with h window_below_one_fails [OF h] show ?thesis
    by blast
qed

subsection \<open>The noise source\<close>

lemma generate_noise_nan:
  assumes "noise_covariance self < 0"
  shows "generate_noise self =
         Inr (replicate (length (t self)) NaN, sdrop (length (t self)) (rng self))"
proof -
  have "np_sqrt (noise_covariance self) = NaN"
    using assms by (simp add: np_sqrt_def)
  then show ?thesis
    by (simp add: generate_noise_eq map_replicate_const)
qed

text \<open>
  Against claim C6 as stated: with variance -1 the noise source returns 1000 NaN samples
  instead of failing.
\<close>

theorem negative_variance_no_failure:
  "generate_noise negative_variance = Inr (replicate 1000 NaN, sdrop 1000 quiet)"
proof -
  have "noise_covariance negative_variance < 0"
    by (simp add: negative_variance_def)
  then show ?thesis
    using generate_noise_nan [of negative_variance]
    by (simp add: negative_variance_def blank_def)
qed

text \<open>
  Claim C6, amended. The noise source does not check its variance. With a negative
  variance the standard deviation \<open>np.sqrt(variance)\<close> is NaN, \<open>np.random.normal\<close> accepts
  it, and the call returns one NaN per sample and advances the generator; with any other
  variance it returns too. It never fails.
\<close>

theorem negative_variance_gives_nan:
  "(noise_covariance self < 0 \<longrightarrow>
      generate_noise self =
      Inr (replicate (length (t self)) NaN, sdrop (length (t self)) (rng self))) \<and>
   (\<exists>nz g. generate_noise self = Inr (nz, g) \<and> length nz = length (t self))"
proof (intro conjI impI)
  assume "noise_covariance self < 0"
  then show "generate_noise self =
      Inr (replicate (length (t self)) NaN, sdrop (length (t self)) (rng self))"
    by (rule generate_noise_nan)
next
  show "\<exists>nz g. generate_noise self = Inr (nz, g) \<and> length nz = length (t self)"
    by (simp add: generate_noise_eq)
qed

text \<open>Claim C6, amended, at variance -1.\<close>

theorem negative_variance_gives_nan_witness:
  "noise_covariance negative_variance < 0 \<and>
   generate_noise negative_variance =
   Inr (replicate (length (t negative_variance)) NaN,
        sdrop (length (t negative_variance)) (rng negative_variance))"
proof -
  have h: "noise_covariance negative_variance < 0"
    by (simp add: negative_variance_def)
  with negative_variance_gives_nan [of negative_variance] show ?thesis
    by blast
qed

subsection \<open>The visibility checkboxes\<close>

text \<open>
  Claim C9. A click on a checkbox changes nothing but the visibility flag of the noisy
  or of the filtered line: the parameters, the sliders, the generator, the three signals
  and the data of the three lines stay as they were.
\<close>

theorem visibility_toggle_frame:
  "update_visibility label self =
     self\<lparr>noisy_line := (noisy_line self)
             \<lparr>visible := visible (noisy_line (update_visibility label self))\<rparr>,
          filtered_line := (filtered_line self)
             \<lparr>visible := visible (filtered_line (update_visibility label self))\<rparr>\<rparr> \<and>
   amplitude (update_visibility label self) = amplitude self \<and>
   frequency (update_visibility label self) = frequency self \<and>
   phase (update_visibility label self) = phase self \<and>
   noise_mean (update_visibility label self) = noise_mean self \<and>
   noise_covariance (update_visibility label self) = noise_covariance self \<and>
   filter_window (update_visibility label self) = filter_window self \<and>
   pure_signal (update_visibility label self) = pure_signal self \<and>
   noisy_signal (update_visibility label self) = noisy_signal self \<and>
   filtered_signal (update_visibility label self) = filtered_signal self \<and>
   ydata (pure_line (update_visibility label self)) = ydata (pure_line self) \<and>
   ydata (noisy_line (update_visibility label self)) = ydata (noisy_line self) \<and>
   ydata (filtered_line (update_visibility label self)) = ydata (filtered_line self) \<and>
   visible (noisy_line (update_visibility ''Show Noise'' self)) = (\<not> visible (noisy_line self)) \<and>
   visible (filtered_line (update_visibility ''Show Filtered'' self)) =
     (\<not> visible (filtered_line self))"
  by (simp add: update_visibility_def)

subsection \<open>The recomputation\<close>

text \<open>
  Claim C1. For any parameters, a recomputation that returns has produced: the pure
  signal \<open>amplitude * sin(2 pi frequency t[i] + phase)\<close> at every index; the noise, which
  is what the noise source draws from the generator at that moment; the noisy signal,
  pure plus noise index by index; and the filtered signal, which is the moving average
  of the noisy signal. It returns whenever the window is at least one and the time axis
  is not empty, and fails (in the filter) otherwise.
\<close>

theorem recompute_outputs:
  "(1 \<le> filter_window self \<and> t self \<noteq> [] \<longrightarrow> (\<exists>s'. recompute self = Inr s')) \<and>
   (\<forall>s'. recompute self = Inr s' \<longrightarrow>
      length (pure_signal s') = length (t self) \<and>
      length (noise s') = length (t self) \<and>
      length (noisy_signal s') = length (t self) \<and>
      (\<forall>i<length (t self).
         pure_signal s' ! i =
         Fin (amplitude self * sin (2 * pi * frequency self * t self ! i + phase self))) \<and>
      generate_noise self = Inr (noise s', rng s') \<and>
      (\<forall>i<length (t self). noisy_signal s' ! i = pure_signal s' ! i + noise s' ! i) \<and>
      apply_filter s' = Inr (filtered_signal s') \<and>
      np_convolve_same (noisy_signal s')
        (replicate (nat (filter_window self)) (Fin (1 / real_of_int (filter_window self)))) =
        Inr (filtered_signal s'))"
proof (intro conjI allI impI)
  assume "1 \<le> filter_window self \<and> t self \<noteq> []"
  then show "\<exists>s'. recompute self = Inr s'"
    using recompute_ok by blast
next
  fix s' assume r: "recompute self = Inr s'"
  note f = recompute_Inr [OF r]
  show p: "length (pure_signal s') = length (t self)"
    by (simp add: f calculate_harmonic_def)
  show n: "length (noise s') = length (t self)"
    by (simp add: f)
  show "length (noisy_signal s') = length (t self)"
    by (simp add: f(4) p n)
  show "generate_noise self = Inr (noise s', rng s')"
    by (simp add: generate_noise_eq f)
  show a: "apply_filter s' = Inr (filtered_signal s')"
    by (rule f)
  have "\<not> (filter_window self < 1 \<or> t self = [])"
    using recompute_fails [of self] r by auto
  then have "1 \<le> filter_window s'"
    by (simp add: f)
  from apply_filter_eq [OF this] a
  show "np_convolve_same (noisy_signal s')
        (replicate (nat (filter_window self)) (Fin (1 / real_of_int (filter_window self)))) =
        Inr (filtered_signal s')"
    by (simp add: f)
next
  fix s' i assume r: "recompute self = Inr s'" and i: "i < length (t self)"
  note f = recompute_Inr [OF r]
  show "pure_signal s' ! i =
         Fin (amplitude self * sin (2 * pi * frequency self * t self ! i + phase self))"
    using i by (simp add: f calculate_harmonic_def)
  have "length (pure_signal s') = length (t self)" "length (noise s') = length (t self)"
    by (simp_all add: f calculate_harmonic_def)
  then show "noisy_signal s' ! i = pure_signal s' ! i + noise s' ! i"
    using i by (simp add: f(4))
qed

text \<open>Claim C1 at startup: the recomputation returns, and the pure signal starts at 0.\<close>

theorem recompute_outputs_witness:
  "1 \<le> filter_window (blank quiet) \<and> t (blank quiet) \<noteq> [] \<and>
   \<not> isl (recompute (blank quiet)) \<and>
   pure_signal (projr (recompute (blank quiet))) ! 0 = Fin 0"
proof -
  have h: "1 \<le> filter_window (blank quiet) \<and> t (blank quiet) \<noteq> []"
    by (auto simp add: blank_def dest: arg_cong [where f = length])
  with recompute_outputs [of "blank quiet"] obtain s' where r: "recompute (blank quiet) = Inr s'"
    by blast
  have "(0::nat) < length (t (blank quiet))"
    by (simp add: blank_def)
  with recompute_outputs [of "blank quiet"] r
  have "pure_signal s' ! 0 =
        Fin (amplitude (blank quiet) *
             sin (2 * pi * frequency (blank quiet) * t (blank quiet) ! 0 + phase (blank quiet)))"
    by blast
  then have "pure_signal s' ! 0 = Fin 0"
    by (simp add: blank_def np_linspace_nth)
  with h r show ?thesis by simp
qed

subsection \<open>Zero padding\<close>

lemma upto_padded_sum:
  "sum_list (map (zero_padded a) [l..u]) =
   sum_list (map ((!) a) [nat l ..< min (length a) (nat (u + 1))])"
proof (induction "nat (u + 1 - l)" arbitrary: u)
  case 0
  then have "u < l" by simp
  then show ?case by simp
next
  case (Suc n)
  then have lu: "l \<le> u" by simp
  have n: "n = nat ((u - 1) + 1 - l)" using Suc(2) by simp
  have split: "[l..u] = [l..u - 1] @ [u]" using lu by (rule upto_rec2)
  have IH: "sum_list (map (zero_padded a) [l..u - 1]) =
            sum_list (map ((!) a) [nat l ..< min (length a) (nat u)])"
    using Suc(1) [OF n] by simp
  show ?case
  proof (cases "0 \<le> u \<and> u < int (length a)")
    case True
    then have "nat u < length a" and "nat (u + 1) = Suc (nat u)"
      by arith+
    then have m: "min (length a) (nat (u + 1)) = Suc (nat u)" "min (length a) (nat u) = nat u"
      by simp_all
    have le: "nat l \<le> nat u" using lu by simp
    have z: "zero_padded a u = a ! nat u" using True by (simp add: zero_padded_def)
    show ?thesis
      unfolding split m using le by (simp add: IH m z)
  next
    case False
    then have m: "min (length a) (nat (u + 1)) = min (length a) (nat u)"
      by (auto simp add: min_def)
    have z: "zero_padded a u = 0" using False by (auto simp add: zero_padded_def)
    show ?thesis
      unfolding split m by (simp add: IH z)
  qed
qed

lemma window_mean_eq:
  assumes "1 \<le> w"
  shows "window_mean a w i =
         Fin (1 / real w) *
         sum_list (map ((!) a) [i + (w - 1) div 2 + 1 - w ..< min (length a) (i + (w - 1) div 2 + 1)])"
proof -
  define k h where "k = w div 2" and "h = (w - 1) div 2"
  have "w = k + h + 1"
    unfolding k_def h_def using assms by presburger
  then have "nat (int i - int k) = i + h + 1 - w"
    by arith
  then have "nat (int i - int (w div 2)) = i + (w - 1) div 2 + 1 - w"
    by (simp add: k_def h_def)
  moreover have "nat (int i + int ((w - 1) div 2) + 1) = i + (w - 1) div 2 + 1"
    by (simp add: nat_add_distrib)
  ultimately show ?thesis
    by (simp add: window_mean_def upto_padded_sum)
qed

text \<open>
  Claim C10. On a signal at least as long as the window, the filter returns a signal of
  the same length whose entry \<open>i\<close> is \<open>1/w\<close> times the sum of the input over the window
  of width \<open>w\<close> around \<open>i\<close>, positions before the first and after the last sample
  counting as zero. The window reaches \<open>w div 2\<close> back and \<open>(w - 1) div 2\<close> ahead.
\<close>

theorem filter_zero_padding:
  assumes "filter_window self = int w" and "1 \<le> w" and "w \<le> length (noisy_signal self)"
  shows "\<exists>f. apply_filter self = Inr f \<and> length f = length (noisy_signal self) \<and>
             (\<forall>i<length (noisy_signal self). f ! i = window_mean (noisy_signal self) w i)"
proof -
  define v where "v = replicate w (Fin (1 / real w))"
  have w: "1 \<le> filter_window self" using assms by simp
  have "apply_filter self = np_convolve_same (noisy_signal self) v"
    using assms by (simp add: apply_filter_eq [OF w] v_def)
  moreover have "v \<noteq> []" "length v \<le> length (noisy_signal self)"
    using assms by (simp_all add: v_def)
  ultimately have a: "apply_filter self =
      Inr (map (conv_same_at (noisy_signal self) v) [0..<length (noisy_signal self)])"
    by (simp add: np_convolve_same_longer)
  have "conv_same_at (noisy_signal self) v i = window_mean (noisy_signal self) w i" for i
    unfolding v_def using assms(2) by (simp add: conv_same_at_uniform window_mean_eq)
  with a show ?thesis by simp
qed

text \<open>Claim C10 for a window of two on the samples 1, 2, 3: the first output is 1/2.\<close>

theorem filter_zero_padding_witness:
  "filter_window three_samples = int 2 \<and> (1::nat) \<le> 2 \<and>
   2 \<le> length (noisy_signal three_samples) \<and>
   (\<exists>f. apply_filter three_samples = Inr f \<and> f ! 0 = Fin (1 / 2) \<and> f ! 2 = Fin (5 / 2))"
proof -
  have h: "filter_window three_samples = int 2" "(1::nat) \<le> 2"
    "2 \<le> length (noisy_signal three_samples)"
    by (simp_all add: three_samples_def)
  from filter_zero_padding [OF h] obtain f where f: "apply_filter three_samples = Inr f"
    and m: "\<forall>i<length (noisy_signal three_samples). f ! i = window_mean (noisy_signal three_samples) 2 i"
    by blast
  have "(0::nat) < length (noisy_signal three_samples)" "(2::nat) < length (noisy_signal three_samples)"
    by (simp_all add: three_samples_def)
  with m have "f ! 0 = window_mean (noisy_signal three_samples) 2 0"
    "f ! 2 = window_mean (noisy_signal three_samples) 2 2"
    by blast+
  then have "f ! 0 = Fin (1 / 2)" "f ! 2 = Fin (5 / 2)"
    by (simp_all add: three_samples_def window_mean_eq upt_rec)
  with h f show ?thesis by blast
qed

subsection \<open>States reached from startup\<close>

lemma run_append: "run (es @ es') self = bind_err (run es self) (run es')"
  by (induction es arbitrary: self) (simp_all add: bind_err_def split: sum.splits)

lemma started_time: "started self \<Longrightarrow> length (t self) = 1000"
  by (simp add: started_def)

lemma started_slider_val:
  "started (self\<lparr>sliders := (sliders self)(k := (sliders self k)\<lparr>val := x\<rparr>)\<rparr>) = started self"
  by (cases k) (simp_all add: started_def)

lemma update_started:
  assumes "started self"
  shows "\<exists>s'. update self = Inr s' \<and> started s'"
proof -
  have w: "1 \<le> filter_window self" and n: "length (t self) = 1000"
    using assms by (simp_all add: started_def)
  then have "t self \<noteq> []" by auto
  with w obtain s' where u: "update self = Inr s'"
    using update_ok by blast
  note f = update_Inr [OF u]
  have p: "length (pure_signal s') = 1000" by (simp add: f(9) n)
  have z: "length (noise s') = 1000" by (simp add: f(10) n)
  have y: "length (noisy_signal s') = 1000" by (simp add: f(12) p z)
  have "1 \<le> filter_window s'" "noisy_signal s' \<noteq> []"
    using w y by (auto simp add: f(6))
  from apply_filter_ok [OF this] f(13) y
  have "length (filtered_signal s') = 1000" by (simp add: f(6) w assms [unfolded started_def])
  with p y assms have "started s'"
    by (simp add: started_def f(5-8))
  with u show ?thesis by blast
qed

lemma slider_set_val_started:
  assumes "started self"
  shows "\<exists>s'. slider_set_val k x self = Inr s' \<and> started s' \<and>
              sliders s' = (sliders self)(k := (sliders self k)\<lparr>val := x\<rparr>)"
proof -
  define s1 where "s1 = self\<lparr>sliders := (sliders self)(k := (sliders self k)\<lparr>val := x\<rparr>)\<rparr>"
  have "started s1" using assms by (simp add: s1_def started_slider_val)
  then obtain s' where u: "update s1 = Inr s'" and s: "started s'"
    using update_started by blast
  have "sliders s' = sliders s1" by (rule update_Inr(8) [OF u])
  with u s show ?thesis
    by (simp add: slider_set_val_def s1_def)
qed

lemma slider_reset_started:
  assumes "started self"
  shows "\<exists>s'. slider_reset k self = Inr s' \<and> started s' \<and>
              sliders s' = (sliders self)(k := (sliders self k)\<lparr>val := valinit (sliders self k)\<rparr>)"
proof (cases "val (sliders self k) = valinit (sliders self k)")
  case True
  then have "(sliders self)(k := (sliders self k)\<lparr>val := valinit (sliders self k)\<rparr>) = sliders self"
    by (auto simp add: fun_eq_iff)
  with True assms show ?thesis
    by (simp add: slider_reset_def)
next
  case False
  with slider_set_val_started [OF assms] show ?thesis
    by (simp add: slider_reset_def)
qed

lemma slider_drag_started:
  assumes "started self"
  shows "\<exists>s'. slider_drag k x self = Inr s' \<and> started s'"
  using assms slider_set_val_started [OF assms]
  by (auto simp add: slider_drag_def Let_def)

lemma reset_sliders_started:
  assumes "started self"
  shows "\<exists>s'. reset_sliders ks self = Inr s' \<and> started s' \<and>
              (\<forall>k. valinit (sliders s' k) = valinit (sliders self k)) \<and>
              (\<forall>k. k \<in> set ks \<or> val (sliders self k) = valinit (sliders self k) \<longrightarrow>
                   val (sliders s' k) = valinit (sliders s' k))"
  using assms
proof (induction ks arbitrary: self)
  case Nil
  then show ?case by simp
next
  case (Cons k ks)
  from slider_reset_started [OF Cons.prems] obtain s1 where
    r: "slider_reset k self = Inr s1" and s: "started s1" and
    sl: "sliders s1 = (sliders self)(k := (sliders self k)\<lparr>val := valinit (sliders self k)\<rparr>)"
    by blast
  from Cons.IH [OF s] obtain s' where
    rs: "reset_sliders ks s1 = Inr s'" and s': "started s'" and
    vi: "\<forall>k'. valinit (sliders s' k') = valinit (sliders s1 k')" and
    v: "\<forall>k'. k' \<in> set ks \<or> val (sliders s1 k') = valinit (sliders s1 k') \<longrightarrow>
            val (sliders s' k') = valinit (sliders s' k')"
    by blast
  have "\<forall>k'. valinit (sliders s' k') = valinit (sliders self k')"
    using vi by (simp add: sl)
  moreover have "\<forall>k'. k' \<in> set (k # ks) \<or> val (sliders self k') = valinit (sliders self k') \<longrightarrow>
            val (sliders s' k') = valinit (sliders s' k')"
    using v by (auto simp add: sl)
  ultimately show ?case
    using r rs s' by auto
qed

lemma reset_started:
  assumes "started self"
  shows "\<exists>s'. reset self = Inr s' \<and> started s' \<and>
              amplitude s' = 1 \<and> frequency s' = 1 \<and> phase s' = 0 \<and> noise_mean s' = 0 \<and>
              noise_covariance s' = 2 / 10 \<and> filter_window s' = 10"
proof -
  from reset_sliders_started [OF assms, of "[Amplitude, Frequency, Noise_mean, Covariance]"]
  obtain s1 where r: "reset_sliders [Amplitude, Frequency, Noise_mean, Covariance] self = Inr s1"
    and s: "started s1"
    and v: "\<forall>k. k \<in> set [Amplitude, Frequency, Noise_mean, Covariance] \<or>
                val (sliders self k) = valinit (sliders self k) \<longrightarrow>
                val (sliders s1 k) = valinit (sliders s1 k)"
    by blast
  from v have vals: "val (sliders s1 Amplitude) = 1" "val (sliders s1 Frequency) = 1"
    "val (sliders s1 Noise_mean) = 0" "val (sliders s1 Covariance) = 2 / 10"
    using s by (simp_all add: started_def)
  from update_started [OF s] obtain s' where u: "update s1 = Inr s'" and s': "started s'"
    by blast
  note f = update_Inr [OF u]
  have "amplitude s' = 1 \<and> frequency s' = 1 \<and> phase s' = 0 \<and> noise_mean s' = 0 \<and>
        noise_covariance s' = 2 / 10 \<and> filter_window s' = 10"
    using s' by (simp add: f(1-4) vals started_def)
  with r u s' show ?thesis
    by (simp add: reset_def)
qed

lemma handle_started:
  assumes "started self"
  shows "\<exists>s'. handle e self = Inr s' \<and> started s'"
proof (cases e)
  case (Slider_dragged k x)
  with slider_drag_started [OF assms] show ?thesis by simp
next
  case (Checkbox_clicked label)
  with assms show ?thesis by (simp add: started_def update_visibility_def)
next
  case Reset_clicked
  with reset_started [OF assms] show ?thesis by auto
qed

lemma run_started:
  assumes "started self"
  shows "\<exists>s'. run es self = Inr s' \<and> started s'"
  using assms
proof (induction es arbitrary: self)
  case Nil
  then show ?case by simp
next
  case (Cons e es)
  from handle_started [OF Cons.prems] obtain s1 where "handle e self = Inr s1" "started s1"
    by blast
  with Cons.IH [of s1] show ?case by simp
qed

lemma init_started:
  "\<exists>s. init g = Inr s \<and> started s \<and> (\<forall>k. val (sliders s k) = valinit (sliders s k))"
proof -
  have n: "length (t (blank g)) = 1000" by (simp add: blank_def)
  then have "t (blank g) \<noteq> []"
    by auto
  moreover have "1 \<le> filter_window (blank g)"
    by (simp add: blank_def)
  ultimately have "1 \<le> filter_window (blank g)" "t (blank g) \<noteq> []"
    by blast+
  then obtain s2 where r: "recompute (blank g) = Inr s2"
    using recompute_ok by blast
  note f = recompute_Inr [OF r]
  have p: "length (pure_signal s2) = 1000" by (simp add: f(1) calculate_harmonic_def n)
  have z: "length (noise s2) = 1000" by (simp add: f(2) n)
  have y: "length (noisy_signal s2) = 1000" by (simp add: f(4) p z)
  have w: "filter_window s2 = 10" by (simp add: f(11) blank_def)
  have "1 \<le> filter_window s2" "noisy_signal s2 \<noteq> []"
    using y w by auto
  from apply_filter_ok [OF this] f(5) y w
  have fl: "length (filtered_signal s2) = 1000" by simp
  have "started (setup_plot s2)"
    using p y fl w by (simp add: started_def setup_plot_def add_sliders_def f(6-12) blank_def)
  moreover have "\<forall>k. val (sliders (setup_plot s2) k) = valinit (sliders (setup_plot s2) k)"
    by (simp add: setup_plot_def add_sliders_def split: slider_key.split)
  ultimately show ?thesis
    using r by (simp add: init_def)
qed

lemma run_program_started: "\<exists>s. run_program g es = Inr s \<and> started s"
proof -
  from init_started obtain s0 where "init g = Inr s0" "started s0" by blast
  with run_started [of s0 es] show ?thesis
    by (simp add: run_program_def)
qed


text \<open>
  Claim C8. After a reset, whatever was done to the sliders before, the parameters are
  the startup defaults: amplitude 1, frequency 1, phase 0, noise mean 0, noise variance
  0.2 and filter window 10.
\<close>

theorem reset_restores_defaults:
  "\<exists>s. run_program g (es @ [Reset_clicked]) = Inr s \<and>
        amplitude s = 1 \<and> frequency s = 1 \<and> phase s = 0 \<and> noise_mean s = 0 \<and>
        noise_covariance s = 2 / 10 \<and> filter_window s = 10"
proof -
  from run_program_started obtain s0 where r: "run_program g es = Inr s0" and s: "started s0"
    by blast
  from r have "run_program g (es @ [Reset_clicked]) = reset s0"
    by (auto simp add: run_program_def run_append bind_err_def split: sum.splits)
  with reset_started [OF s] show ?thesis by auto
qed


subsection \<open>Noise without variance\<close>

lemma np_sqrt_0 [simp]: "np_sqrt 0 = Fin 0"
  by (simp add: np_sqrt_def)

lemma recompute_zero_variance:
  assumes "recompute self = Inr s'" and "noise_covariance self = 0"
  shows "noise s' = replicate (length (t self)) (Fin (noise_mean self))"
    and "\<forall>i<length (t self). noisy_signal s' ! i = pure_signal s' ! i + Fin (noise_mean self)"
proof -
  note f = recompute_Inr [OF assms(1)]
  show n: "noise s' = replicate (length (t self)) (Fin (noise_mean self))"
    by (simp add: f(2) assms(2) map_replicate_const)
  have "length (pure_signal s') = length (t self)"
    by (simp add: f(1) calculate_harmonic_def)
  then show "\<forall>i<length (t self). noisy_signal s' ! i = pure_signal s' ! i + Fin (noise_mean self)"
    by (simp add: f(4) n)
qed

lemma slider_drag_moves:
  assumes "started self" and "value_in_bounds (sliders self k) x \<noteq> val (sliders self k)"
  shows "\<exists>s'. slider_drag k x self = Inr s' \<and> started s' \<and>
              update (self\<lparr>sliders := (sliders self)
                (k := (sliders self k)\<lparr>val := value_in_bounds (sliders self k) x\<rparr>)\<rparr>) = Inr s'"
proof -
  from slider_set_val_started [OF assms(1), of k "value_in_bounds (sliders self k) x"]
  obtain s' where "slider_set_val k (value_in_bounds (sliders self k) x) self = Inr s'"
    and "started s'" by blast
  with assms(2) show ?thesis
    by (simp add: slider_drag_def Let_def slider_set_val_def)
qed

text \<open>
  Against claim C7 as stated: the user drags the variance slider to 0 and the noise mean
  slider to 1. The variance is then 0, the pure signal starts at 0 and the noisy signal
  starts at 1.
\<close>

theorem zero_variance_offset:
  "\<not> isl (run_program quiet offset_noise) \<and>
   noise_covariance (projr (run_program quiet offset_noise)) = 0 \<and>
   pure_signal (projr (run_program quiet offset_noise)) ! 0 = Fin 0 \<and>
   noisy_signal (projr (run_program quiet offset_noise)) ! 0 = Fin 1"
proof -
  from init_started obtain s0 where i: "init quiet = Inr s0" and s0: "started s0"
    and v0: "\<forall>k. val (sliders s0 k) = valinit (sliders s0 k)" by blast
  have b0: "value_in_bounds (sliders s0 Covariance) 0 = 0"
    using s0 by (simp add: value_in_bounds_def started_def)
  have "val (sliders s0 Covariance) = 2 / 10"
    using s0 v0 by (simp add: started_def)
  then have "value_in_bounds (sliders s0 Covariance) 0 \<noteq> val (sliders s0 Covariance)"
    by (simp add: b0)
  from slider_drag_moves [OF s0 this] obtain s1 where
    d1: "slider_drag Covariance 0 s0 = Inr s1" and s1: "started s1" and
    u1: "update (s0\<lparr>sliders := (sliders s0)
           (Covariance := (sliders s0 Covariance)\<lparr>val := 0\<rparr>)\<rparr>) = Inr s1"
    by (auto simp add: b0)
  have sl1: "sliders s1 = (sliders s0)(Covariance := (sliders s0 Covariance)\<lparr>val := 0\<rparr>)"
    using update_Inr(8) [OF u1] by simp
  have b1: "value_in_bounds (sliders s1 Noise_mean) 1 = 1"
    using s1 by (simp add: value_in_bounds_def started_def)
  have "val (sliders s1 Noise_mean) = 0"
    using s0 v0 by (simp add: sl1 started_def)
  then have "value_in_bounds (sliders s1 Noise_mean) 1 \<noteq> val (sliders s1 Noise_mean)"
    by (simp add: b1)
  from slider_drag_moves [OF s1 this] obtain s2 where
    d2: "slider_drag Noise_mean 1 s1 = Inr s2" and s2: "started s2" and
    u2: "update (s1\<lparr>sliders := (sliders s1)
           (Noise_mean := (sliders s1 Noise_mean)\<lparr>val := 1\<rparr>)\<rparr>) = Inr s2"
    by (auto simp add: b1)
  note f = update_Inr [OF u2]
  have r: "run_program quiet offset_noise = Inr s2"
    by (simp add: run_program_def offset_noise_def i d1 d2)
  have c: "noise_covariance s2 = 0" and m: "noise_mean s2 = 1"
    by (simp_all add: f(3,4) sl1)
  have ph: "phase s2 = 0" and tt: "t s2 = np_linspace 0 10 1000"
    using s2 by (simp_all add: started_def)
  have tt': "t s1 = np_linspace 0 10 1000"
    using tt by (simp add: f(7))
  have p: "pure_signal s2 ! 0 = Fin 0"
    by (simp add: f(9) tt' ph np_linspace_nth)
  have "noise s2 = replicate 1000 (Fin 1)"
    by (simp add: f(10) c m tt' map_replicate_const)
  then have "noisy_signal s2 ! 0 = pure_signal s2 ! 0 + Fin 1"
    using s2 by (simp add: f(12) started_def)
  with p have "noisy_signal s2 ! 0 = Fin 1" by simp
  with r c p show ?thesis by simp
qed

text \<open>
  Claim C7, amended. With a noise variance of 0 every noise sample is the noise mean,
  whatever the generator draws, so after a recomputation the noisy signal is the pure
  signal plus the noise mean at every index. It equals the pure signal when the noise
  mean is 0 too, for every amplitude, frequency, phase and filter window.
\<close>

theorem zero_variance_noisy:
  assumes "recompute self = Inr s'" and "noise_covariance self = 0"
  shows "(\<forall>i<length (t self). noisy_signal s' ! i = pure_signal s' ! i + Fin (noise_mean self)) \<and>
         (noise_mean self = 0 \<longrightarrow> noisy_signal s' = pure_signal s')"
proof (intro conjI impI)
  show a: "\<forall>i<length (t self). noisy_signal s' ! i = pure_signal s' ! i + Fin (noise_mean self)"
    using assms by (rule recompute_zero_variance)
  note f = recompute_Inr [OF assms(1)]
  assume z: "noise_mean self = 0"
  have n: "noise s' = replicate (length (t self)) (Fin 0)"
    using recompute_zero_variance(1) [OF assms] z by simp
  have l: "length (pure_signal s') = length (t self)"
    by (simp add: f(1) calculate_harmonic_def)
  show "noisy_signal s' = pure_signal s'"
  proof (rule nth_equalityI)
    show "length (noisy_signal s') = length (pure_signal s')"
      by (simp add: f(4) n l)
  next
    fix i assume "i < length (noisy_signal s')"
    then have i: "i < length (t self)" by (simp add: f(4) n l)
    with a have "noisy_signal s' ! i = pure_signal s' ! i + Fin 0" by (simp add: z)
    moreover obtain x where "pure_signal s' ! i = Fin x"
      using i by (simp add: f(1) calculate_harmonic_def)
    ultimately show "noisy_signal s' ! i = pure_signal s' ! i" by simp
  qed
qed

text \<open>Claim C7, amended, at startup parameters with the variance set to 0.\<close>

theorem zero_variance_noisy_witness:
  "noise_covariance zero_variance = 0 \<and> \<not> isl (recompute zero_variance) \<and>
   noisy_signal (projr (recompute zero_variance)) = pure_signal (projr (recompute zero_variance))"
proof -
  have c: "noise_covariance zero_variance = 0" and m: "noise_mean zero_variance = 0"
    by (simp_all add: zero_variance_def blank_def)
  have "length (t zero_variance) = 1000"
    by (simp add: zero_variance_def blank_def)
  then have "t zero_variance \<noteq> []" by auto
  moreover have "1 \<le> filter_window zero_variance"
    by (simp add: zero_variance_def blank_def)
  ultimately obtain s' where r: "recompute zero_variance = Inr s'"
    using recompute_ok by blast
  from zero_variance_noisy [OF r c] m have "noisy_signal s' = pure_signal s'"
    by blast
  with c r show ?thesis by simp
qed

subsection \<open>The time axis of the program\<close>

text \<open>
  Claim C3. The program starts, and its time axis \<open>np.linspace(0, 10, 1000)\<close> has exactly
  1000 samples, starts at 0, ends at 10, steps by 10/999 from each sample to the next, and
  is strictly increasing.
\<close>

theorem time_base:
  "\<exists>s. init g = Inr s \<and> t s = np_linspace 0 10 1000 \<and> length (t s) = 1000 \<and>
        t s ! 0 = 0 \<and> t s ! 999 = 10 \<and>
        (\<forall>i<999. t s ! Suc i - t s ! i = 10 / 999) \<and> sorted_wrt (<) (t s)"
proof -
  from init_started obtain s where i: "init g = Inr s" and "started s" by blast
  then have tt: "t s = np_linspace 0 10 1000"
    by (simp add: started_def)
  have "\<forall>i<999. t s ! Suc i - t s ! i = 10 / 999"
    unfolding tt using np_linspace_0_10_1000(3) by blast
  moreover have "length (t s) = 1000" "t s ! 0 = 0" "t s ! 999 = 10"
    unfolding tt by (simp_all add: np_linspace_0_10_1000(1,2))
  moreover have "sorted_wrt (<) (t s)"
    unfolding tt by (rule np_linspace_0_10_1000(4))
  ultimately show ?thesis
    using i tt by blast
qed

text \<open>Claim C3 on the quiet generator: the step between the first two samples.\<close>

theorem time_base_witness:
  "(0::nat) < 999 \<and> \<not> isl (init quiet) \<and>
   t (projr (init quiet)) ! Suc 0 - t (projr (init quiet)) ! 0 = 10 / 999"
proof -
  have h: "(0::nat) < 999" by simp
  from time_base [of quiet] obtain s where i: "init quiet = Inr s"
    and "\<forall>i<999. t s ! Suc i - t s ! i = 10 / 999" by blast
  with h have "t s ! Suc 0 - t s ! 0 = 10 / 999" by blast
  with h i show ?thesis by simp
qed

subsection \<open>Lengths for any window\<close>

text \<open>
  For reference: whatever the window, a recomputation that returns leaves a pure and a
  noisy signal as long as the time axis, and a filtered signal as long as the longer of
  the time axis and the window, because \<open>np.convolve\<close> swaps its arguments when the
  kernel is the longer one. The program's window is always 10.
\<close>

lemma recompute_lengths:
  assumes "recompute self = Inr s'"
  shows "length (pure_signal s') = length (t self)"
    and "length (noisy_signal s') = length (t self)"
    and "length (filtered_signal s') = max (length (t self)) (nat (filter_window self))"
proof -
  note f = recompute_Inr [OF assms]
  show p: "length (pure_signal s') = length (t self)"
    by (simp add: f(1) calculate_harmonic_def)
  show n: "length (noisy_signal s') = length (t self)"
    by (simp add: f(4) p f(2))
  have "\<not> (filter_window self < 1 \<or> t self = [])"
    using recompute_fails [of self] assms by auto
  then have "1 \<le> filter_window s'" "noisy_signal s' \<noteq> []"
    using n by (auto simp add: f(11))
  from apply_filter_ok [OF this] f(5)
  show "length (filtered_signal s') = max (length (t self)) (nat (filter_window self))"
    by (simp add: n f(11))
qed

end
